theory Spec2Isabelle
  imports Complex_Main "HOL-Library.Word"
begin

section \<open>JavaScript values used by the bridge\<close>

text \<open>
  The bridge (\<^verbatim>\<open>src/index.js\<close>) is a Node.js script. A JavaScript string is a
  sequence of UTF-16 code units, which is what \<^verbatim>\<open>substring\<close> counts; string
  literals of the source are written with \<open>lit\<close>.
\<close>

type_synonym jsstring = "16 word list"

definition lit :: "string \<Rightarrow> jsstring" where
  "lit s = map of_char s"

definition newline :: jsstring where
  "newline = [0x0A]"

text \<open>
  The values \<^verbatim>\<open>JSON.parse\<close> can return. A number is the binary64 value read as a
  rational (both zeros are \<open>Finite 0\<close>; \<^verbatim>\<open>NaN\<close> cannot come out of JSON text) or an
  infinity (a literal too large for binary64). An object is its own properties in
  enumeration order. A value of type \<open>json option\<close> is what an expression evaluates
  to: \<open>None\<close> is \<^verbatim>\<open>undefined\<close>.
\<close>

datatype jsnumber = Finite rat | PosInfinity | NegInfinity

datatype json =
    JNull
  | JBool bool
  | JNum jsnumber
  | JStr jsstring
  | JArr "json list"
  | JObj "(jsstring \<times> json) list"

datatype exn = TypeError

text \<open>Truthiness, as \<^verbatim>\<open>!x\<close>, \<^verbatim>\<open>if (x)\<close> and \<^verbatim>\<open>x ? a : b\<close> test it.\<close>

fun truthy :: "json option \<Rightarrow> bool" where
  "truthy None = False"
| "truthy (Some JNull) = False"
| "truthy (Some (JBool b)) = b"
| "truthy (Some (JNum n)) = (n \<noteq> Finite 0)"
| "truthy (Some (JStr s)) = (s \<noteq> [])"
| "truthy (Some (JArr xs)) = True"
| "truthy (Some (JObj kvs)) = True"

text \<open>
  Reading \<^verbatim>\<open>v.k\<close> for the two keys the bridge reads, \<^verbatim>\<open>method\<close> and \<^verbatim>\<open>id\<close>,
  which no built-in prototype defines: an object gives its own property or
  \<^verbatim>\<open>undefined\<close>, an array, string, number or boolean gives \<^verbatim>\<open>undefined\<close>, and
  \<^verbatim>\<open>null\<close> throws a TypeError. \<open>property\<close> is the read on a value already known
  not to be \<^verbatim>\<open>null\<close>.
\<close>

fun property :: "json \<Rightarrow> jsstring \<Rightarrow> json option" where
  "property (JObj kvs) k = map_of kvs k"
| "property v k = None"

definition get_prop :: "json \<Rightarrow> jsstring \<Rightarrow> exn + json option" where
  "get_prop v k = (if v = JNull then Inl TypeError else Inr (property v k))"

text \<open>The test \<^verbatim>\<open>x != null\<close>: false for \<^verbatim>\<open>null\<close> and \<^verbatim>\<open>undefined\<close> only.\<close>

definition not_nullish :: "json option \<Rightarrow> bool" where
  "not_nullish x = (case x of None \<Rightarrow> False | Some JNull \<Rightarrow> False | Some v \<Rightarrow> True)"

text \<open>
  The assignment \<^verbatim>\<open>o.k = x\<close> in sloppy mode (the script is a CommonJS module
  without a strict-mode directive), seen through what \<^verbatim>\<open>JSON.stringify\<close> prints
  afterwards: an existing property keeps its place, a new one goes last, a
  property holding \<^verbatim>\<open>undefined\<close> is not printed, an array does not print a
  non-index property, and the assignment to a primitive is ignored.
\<close>

fun assign :: "(jsstring \<times> json) list \<Rightarrow> jsstring \<Rightarrow> json \<Rightarrow> (jsstring \<times> json) list" where
  "assign [] k v = [(k, v)]"
| "assign (p # ps) k v = (if fst p = k then (k, v) # ps else p # assign ps k v)"

fun set_prop :: "json \<Rightarrow> jsstring \<Rightarrow> json option \<Rightarrow> json" where
  "set_prop (JObj kvs) k (Some v) = JObj (assign kvs k v)"
| "set_prop (JObj kvs) k None = JObj (filter (\<lambda>p. fst p \<noteq> k) kvs)"
| "set_prop x k v = x"

text \<open>
  One property \<^verbatim>\<open>k: x\<close> of an object literal that is handed to
  \<^verbatim>\<open>JSON.stringify\<close>: nothing is printed for \<^verbatim>\<open>undefined\<close>.
\<close>

definition entry :: "jsstring \<Rightarrow> json option \<Rightarrow> (jsstring \<times> json) list" where
  "entry k x = (case x of None \<Rightarrow> [] | Some v \<Rightarrow> [(k, v)])"

text \<open>
  \<^verbatim>\<open>JSON.parse\<close> and \<^verbatim>\<open>JSON.stringify\<close> belong to the JavaScript runtime, not to
  the repository; the bridge is modelled over any pair of them. \<open>JSON_parse\<close>
  returns \<open>None\<close> where \<^verbatim>\<open>JSON.parse\<close> throws a SyntaxError.
\<close>

record runtime =
  JSON_parse :: "jsstring \<Rightarrow> json option"
  JSON_stringify :: "json \<Rightarrow> jsstring"

section \<open>Credential: \<^verbatim>\<open>Buffer.from(s).toString("base64")\<close>\<close>

text \<open>
  \<^verbatim>\<open>Buffer.from(s)\<close> encodes the string as UTF-8, a surrogate pair as one
  four-byte code point and an unpaired surrogate as U+FFFD; \<^verbatim>\<open>toString("base64")\<close>
  prints the bytes in the standard alphabet with \<^verbatim>\<open>=\<close> padding.
\<close>

fun utf8 :: "jsstring \<Rightarrow> 8 word list" where
  "utf8 [] = []"
| "utf8 (c # cs) =
     (let n = unat c in
      if n < 0x80 then of_nat n # utf8 cs
      else if n < 0x800 then of_nat (0xC0 + n div 64) # of_nat (0x80 + n mod 64) # utf8 cs
      else if 0xD800 \<le> n \<and> n < 0xDC00 then
        (case cs of
           d # ds \<Rightarrow>
             (let m = unat d in
              if 0xDC00 \<le> m \<and> m < 0xE000 then
                (let p = 0x10000 + (n - 0xD800) * 0x400 + (m - 0xDC00) in
                 of_nat (0xF0 + p div 0x40000) # of_nat (0x80 + p div 0x1000 mod 64) #
                 of_nat (0x80 + p div 64 mod 64) # of_nat (0x80 + p mod 64) # utf8 ds)
              else [0xEF, 0xBF, 0xBD] @ utf8 cs)
         | [] \<Rightarrow> [0xEF, 0xBF, 0xBD])
      else if 0xDC00 \<le> n \<and> n < 0xE000 then [0xEF, 0xBF, 0xBD] @ utf8 cs
      else of_nat (0xE0 + n div 0x1000) # of_nat (0x80 + n div 64 mod 64) #
           of_nat (0x80 + n mod 64) # utf8 cs)"

definition b64chars :: string where
  "b64chars = ''ABCDEFGHIJKLMNOPQRSTUVWXYZabcdefghijklmnopqrstuvwxyz0123456789+/''"

definition b64 :: "nat \<Rightarrow> 16 word" where
  "b64 n = of_char (b64chars ! n)"

fun base64 :: "8 word list \<Rightarrow> jsstring" where
  "base64 (a # b # c # rest) =
     [b64 (unat a div 4), b64 (unat a mod 4 * 16 + unat b div 16),
      b64 (unat b mod 16 * 4 + unat c div 64), b64 (unat c mod 64)] @ base64 rest"
| "base64 [a, b] =
     [b64 (unat a div 4), b64 (unat a mod 4 * 16 + unat b div 16),
      b64 (unat b mod 16 * 4)] @ lit ''=''"
| "base64 [a] = [b64 (unat a div 4), b64 (unat a mod 4 * 16)] @ lit ''==''"
| "base64 [] = []"

section \<open>Startup (lines 16 to 31 and 115)\<close>

text \<open>
  \<open>argv\<close> is \<^verbatim>\<open>process.argv\<close>: the node binary, the script, then the arguments.
  Reading past its end gives \<^verbatim>\<open>undefined\<close>.
\<close>

definition argv_at :: "jsstring list \<Rightarrow> nat \<Rightarrow> jsstring option" where
  "argv_at argv n = (if n < length argv then Some (argv ! n) else None)"

definition url :: "jsstring list \<Rightarrow> jsstring option" where
  "url argv = argv_at argv 2"

definition password :: "jsstring list \<Rightarrow> jsstring option" where
  "password argv = argv_at argv 3"

text \<open>
  \<^verbatim>\<open>password ? "Basic " + Buffer.from("user:" + password).toString("base64") : null\<close>:
  \<^verbatim>\<open>undefined\<close> and the empty string are falsy.
\<close>

definition authHeader :: "jsstring list \<Rightarrow> jsstring option" where
  "authHeader argv =
     (case password argv of
        None \<Rightarrow> None
      | Some p \<Rightarrow>
          if p = [] then None
          else Some (lit ''Basic '' @ base64 (utf8 (lit ''user:'' @ p))))"

record request =
  req_url :: "jsstring option"
  req_method :: jsstring
  req_headers :: "(jsstring \<times> jsstring) list"
  req_body :: jsstring

text \<open>
  The process: the two module variables, the exit code once the process has
  ended, whether a rejected promise that nothing handles is waiting for the
  runtime, what has been written to the two output streams (one element per
  \<^verbatim>\<open>write\<close>), the requests handed to \<^verbatim>\<open>fetch\<close>, and the messages of the
  \<open>handleMessage\<close> calls that are suspended at \<^verbatim>\<open>await fetch\<close>.
\<close>

record state =
  pending :: int
  stdinClosed :: bool
  exitCode :: "int option"
  unhandled :: bool
  stdout :: "jsstring list"
  stderr :: "jsstring list"
  requests :: "request list"
  inflight :: "json list"

definition write_stdout :: "jsstring \<Rightarrow> state \<Rightarrow> state" where
  "write_stdout x s = s\<lparr>stdout := stdout s @ [x]\<rparr>"

definition write_stderr :: "jsstring \<Rightarrow> state \<Rightarrow> state" where
  "write_stderr x s = s\<lparr>stderr := stderr s @ [x]\<rparr>"

definition process_exit :: "int \<Rightarrow> state \<Rightarrow> state" where
  "process_exit c s = s\<lparr>exitCode := Some c\<rparr>"

definition fresh :: state where
  "fresh = \<lparr>pending = 0, stdinClosed = False, exitCode = None, unhandled = False,
            stdout = [], stderr = [], requests = [], inflight = []\<rparr>"

text \<open>
  The top level of the script up to the registration of the listeners:
  \<^verbatim>\<open>if (!url) { usage; process.exit(1) }\<close>, then the two variables are
  initialised and the connection line is logged.
\<close>

definition main :: "jsstring list \<Rightarrow> state" where
  "main argv =
     (case url argv of
        None \<Rightarrow> process_exit 1 (write_stderr (lit ''Usage: mcp-bridge <url> <password>'' @ newline) fresh)
      | Some u \<Rightarrow>
          if u = [] then
            process_exit 1 (write_stderr (lit ''Usage: mcp-bridge <url> <password>'' @ newline) fresh)
          else write_stderr (lit ''[bridge] Connected to '' @ u @ newline) fresh)"

section \<open>\<open>maybeExit\<close> and \<open>handleMessage\<close> (lines 33 to 106)\<close>

definition maybeExit :: "state \<Rightarrow> state" where
  "maybeExit s = (if stdinClosed s \<and> pending s = 0 then process_exit 0 s else s)"

text \<open>
  What \<^verbatim>\<open>await fetch(...)\<close> and \<^verbatim>\<open>await res.text()\<close> give back: the first
  promise is rejected, with the \<^verbatim>\<open>message\<close> of the error, or resolves to a
  response with a status; the body text is then read (only when the status is
  not 204), which can be rejected as well.
\<close>

datatype body_read = TextRejected jsstring | Text jsstring

datatype outcome = FetchRejected jsstring | Response nat body_read

text \<open>
  The synchronous part of \<open>handleMessage\<close>, from the call to the suspension at
  \<^verbatim>\<open>await fetch\<close> (lines 38 to 57). The read \<^verbatim>\<open>msg.method\<close> of line 45 is outside
  every \<^verbatim>\<open>try\<close>: when it throws, the promise of the async function is rejected
  and nothing handles it (the listener of line 108 drops the promise).
\<close>

definition unhandled_rejection :: "exn \<Rightarrow> state \<Rightarrow> state" where
  "unhandled_rejection e s = s\<lparr>unhandled := True\<rparr>"

definition handleMessage_start :: "runtime \<Rightarrow> jsstring list \<Rightarrow> jsstring \<Rightarrow> state \<Rightarrow> state" where
  "handleMessage_start rt argv raw s =
     (case JSON_parse rt raw of
        None \<Rightarrow> s
      | Some msg \<Rightarrow>
          (case get_prop msg (lit ''method'') of
             Inl e \<Rightarrow> unhandled_rejection e s
           | Inr m \<Rightarrow>
               if \<not> truthy m then s
               else s\<lparr>pending := pending s + 1,
                      requests := requests s @
                        [\<lparr>req_url = url argv, req_method = lit ''POST'',
                          req_headers =
                            [(lit ''Content-Type'', lit ''application/json'')] @
                            (case authHeader argv of
                               None \<Rightarrow> []
                             | Some h \<Rightarrow> if h = [] then [] else [(lit ''Authorization'', h)]),
                          req_body = JSON_stringify rt msg\<rparr>],
                      inflight := inflight s @ [msg]\<rparr>))"

text \<open>
  The inner \<^verbatim>\<open>catch\<close> (lines 75 to 87) and the outer \<^verbatim>\<open>catch (err)\<close> (lines 90
  to 101). \<open>msg\<close> passed line 45, so it is not \<^verbatim>\<open>null\<close> and \<^verbatim>\<open>msg.id\<close> does not
  throw.
\<close>

definition catch_non_json :: "runtime \<Rightarrow> json \<Rightarrow> jsstring \<Rightarrow> state \<Rightarrow> state" where
  "catch_non_json rt msg body s =
     (if not_nullish (property msg (lit ''id'')) then
        write_stdout
          (JSON_stringify rt
             (JObj ([(lit ''jsonrpc'', JStr (lit ''2.0''))] @
                    entry (lit ''id'') (property msg (lit ''id'')) @
                    [(lit ''error'',
                      JObj [(lit ''code'', JNum (Finite (- 32603))),
                            (lit ''message'', JStr (lit ''Server returned non-JSON response''))])]))
           @ newline)
          (write_stderr (lit ''[bridge] Non-JSON response: '' @ take 200 body @ newline) s)
      else s)"

definition catch_err :: "runtime \<Rightarrow> json \<Rightarrow> jsstring \<Rightarrow> state \<Rightarrow> state" where
  "catch_err rt msg err_message s =
     (let s1 = write_stderr (lit ''[bridge] Request failed: '' @ err_message @ newline) s in
      if not_nullish (property msg (lit ''id'')) then
        write_stdout
          (JSON_stringify rt
             (JObj ([(lit ''jsonrpc'', JStr (lit ''2.0''))] @
                    entry (lit ''id'') (property msg (lit ''id'')) @
                    [(lit ''error'',
                      JObj [(lit ''code'', JNum (Finite (- 32603))),
                            (lit ''message'', JStr (lit ''Bridge error: '' @ err_message))])]))
           @ newline)
          s1
      else s1)"

text \<open>
  The \<^verbatim>\<open>try\<close> block after \<^verbatim>\<open>fetch\<close> has settled (lines 59 to 89). The inner
  \<^verbatim>\<open>try\<close> is left for its \<^verbatim>\<open>catch\<close> by a SyntaxError of \<^verbatim>\<open>JSON.parse(body)\<close>
  and by the TypeError of \<^verbatim>\<open>parsed.id\<close> when the body is the text \<^verbatim>\<open>null\<close>.
  No module variable is read or written between the two awaits, so they are
  one step here.
\<close>

definition try_block :: "runtime \<Rightarrow> json \<Rightarrow> outcome \<Rightarrow> state \<Rightarrow> state" where
  "try_block rt msg oc s =
     (case oc of
        FetchRejected err_message \<Rightarrow> catch_err rt msg err_message s
      | Response status txt \<Rightarrow>
          if status \<noteq> 204 then
            (case txt of
               TextRejected err_message \<Rightarrow> catch_err rt msg err_message s
             | Text body \<Rightarrow>
                 if body \<noteq> [] then
                   (case JSON_parse rt body of
                      None \<Rightarrow> catch_non_json rt msg body s
                    | Some parsed \<Rightarrow>
                        (case get_prop parsed (lit ''id'') of
                           Inl e \<Rightarrow> catch_non_json rt msg body s
                         | Inr parsed_id \<Rightarrow>
                             if parsed_id = Some JNull \<or> parsed_id = None then
                               (if not_nullish (property msg (lit ''id'')) then
                                  write_stdout
                                    (JSON_stringify rt
                                       (set_prop parsed (lit ''id'') (property msg (lit ''id'')))
                                     @ newline) s
                                else s)
                             else write_stdout (body @ newline) s))
                 else s)
          else s)"

text \<open>The rest of \<open>handleMessage\<close>: the \<^verbatim>\<open>try\<close> with its \<^verbatim>\<open>finally\<close> (lines 102 to 105).\<close>

definition handleMessage_resume :: "runtime \<Rightarrow> json \<Rightarrow> outcome \<Rightarrow> state \<Rightarrow> state" where
  "handleMessage_resume rt msg oc s =
     (let s1 = try_block rt msg oc s in
      maybeExit (s1\<lparr>pending := pending s1 - 1\<rparr>))"

section \<open>The event loop (lines 108 to 113)\<close>

text \<open>
  What the runtime does with the script: it delivers a line of standard input,
  the settling of the \<open>i\<close>-th suspended exchange, or the end of standard input,
  and, when the running callback and its microtasks are done, it goes through
  its rejected promises (\<open>Tick\<close>). Node, from version 15 on (the README asks
  for 18 or later), raises a rejection that nothing handles as an uncaught
  exception, which ends the process with exit code 1; the report it prints is
  not part of \<open>stderr\<close>, which holds the writes of the script. Until then the
  listeners go on running: the other lines of the same chunk of input are
  handled, and so is the end of input when the line was the last,
  unterminated one. After the process has ended nothing runs.
\<close>

datatype event = Line jsstring | Settled nat outcome | Close | Tick

definition step :: "runtime \<Rightarrow> jsstring list \<Rightarrow> event \<Rightarrow> state \<Rightarrow> state" where
  "step rt argv ev s =
     (if exitCode s \<noteq> None then s
      else case ev of
        Line raw \<Rightarrow> handleMessage_start rt argv raw s
      | Settled i oc \<Rightarrow>
          if i < length (inflight s) then
            handleMessage_resume rt (inflight s ! i) oc
              (s\<lparr>inflight := take i (inflight s) @ drop (Suc i) (inflight s)\<rparr>)
          else s
      | Close \<Rightarrow> maybeExit (s\<lparr>stdinClosed := True\<rparr>)
      | Tick \<Rightarrow> if unhandled s then process_exit 1 s else s)"

definition run :: "runtime \<Rightarrow> jsstring list \<Rightarrow> event list \<Rightarrow> state" where
  "run rt argv evs = foldl (\<lambda>s ev. step rt argv ev s) (main argv) evs"

section \<open>A runtime table for the scenarios of the specification\<close>

text \<open>
  \<^verbatim>\<open>JSON.parse\<close> and \<^verbatim>\<open>JSON.stringify\<close> on the texts and values of the
  scenarios (section 8 of the specification), to run the bridge on them. Every
  other text is taken as not JSON, as \<^verbatim>\<open>oops\<close> is.
\<close>

abbreviation jsonrpc2 :: "jsstring \<times> json" where
  "jsonrpc2 \<equiv> (lit ''jsonrpc'', JStr (lit ''2.0''))"

definition sample_texts :: "(jsstring \<times> json) list" where
  \<open>sample_texts =
     [(lit ''{"jsonrpc":"2.0","id":1,"method":"ping"}'',
       JObj [jsonrpc2, (lit ''id'', JNum (Finite 1)), (lit ''method'', JStr (lit ''ping''))]),
      (lit ''{"jsonrpc":"2.0","id":0,"method":"ping"}'',
       JObj [jsonrpc2, (lit ''id'', JNum (Finite 0)), (lit ''method'', JStr (lit ''ping''))]),
      (lit ''{"jsonrpc":"2.0","id":5,"method":"x"}'',
       JObj [jsonrpc2, (lit ''id'', JNum (Finite 5)), (lit ''method'', JStr (lit ''x''))]),
      (lit ''{"jsonrpc":"2.0","id":null,"method":"ping"}'',
       JObj [jsonrpc2, (lit ''id'', JNull), (lit ''method'', JStr (lit ''ping''))]),
      (lit ''{"jsonrpc":"2.0","method":"notifications/initialized"}'',
       JObj [jsonrpc2, (lit ''method'', JStr (lit ''notifications/initialized''))]),
      (lit ''{"jsonrpc":"2.0","id":1,"result":{}}'',
       JObj [jsonrpc2, (lit ''id'', JNum (Finite 1)), (lit ''result'', JObj [])]),
      (lit ''{"jsonrpc":"2.0","result":{}}'',
       JObj [jsonrpc2, (lit ''result'', JObj [])]),
      (lit ''{"jsonrpc":"2.0","result":{},"id":0}'',
       JObj [jsonrpc2, (lit ''result'', JObj []), (lit ''id'', JNum (Finite 0))]),
      (lit ''{"jsonrpc":"2.0","id":5,"error":{"code":-32603,"message":"Bridge error: fetch failed"}}'',
       JObj [jsonrpc2, (lit ''id'', JNum (Finite 5)),
             (lit ''error'',
              JObj [(lit ''code'', JNum (Finite (- 32603))),
                    (lit ''message'', JStr (lit ''Bridge error: fetch failed''))])]),
      (lit ''{"jsonrpc":"2.0","id":1,"error":{"code":-32603,"message":"Server returned non-JSON response"}}'',
       JObj [jsonrpc2, (lit ''id'', JNum (Finite 1)),
             (lit ''error'',
              JObj [(lit ''code'', JNum (Finite (- 32603))),
                    (lit ''message'', JStr (lit ''Server returned non-JSON response''))])]),
      (lit ''null'', JNull)]\<close>

definition sample_runtime :: runtime where
  "sample_runtime =
     \<lparr>JSON_parse = map_of sample_texts,
      JSON_stringify =
        (\<lambda>v. case map_of (map (\<lambda>(t, x). (x, t)) sample_texts) v of
               None \<Rightarrow> []
             | Some t \<Rightarrow> t)\<rparr>"

definition sample_argv :: "jsstring list" where
  "sample_argv = [lit ''node'', lit ''index.js'', lit ''https://my-server.com/mcp'', lit ''my-password'']"

section \<open>Projections of the handler\<close>

lemma stdout_write_stdout [simp]: "stdout (write_stdout x s) = stdout s @ [x]"
  by (simp add: write_stdout_def)

lemma stdout_write_stderr [simp]: "stdout (write_stderr x s) = stdout s"
  by (simp add: write_stderr_def)

lemma stderr_write_stdout [simp]: "stderr (write_stdout x s) = stderr s"
  by (simp add: write_stdout_def)

lemma stderr_write_stderr [simp]: "stderr (write_stderr x s) = stderr s @ [x]"
  by (simp add: write_stderr_def)

lemma stdout_resume:
  "stdout (handleMessage_resume rt msg oc s) = stdout (try_block rt msg oc s)"
  by (simp add: handleMessage_resume_def maybeExit_def process_exit_def Let_def)

lemma stderr_resume:
  "stderr (handleMessage_resume rt msg oc s) = stderr (try_block rt msg oc s)"
  by (simp add: handleMessage_resume_def maybeExit_def process_exit_def Let_def)

lemma not_nullish_iff: "not_nullish x \<longleftrightarrow> (\<exists>v. x = Some v \<and> v \<noteq> JNull)"
  by (cases x) (auto simp: not_nullish_def split: json.splits)

lemma map_of_assign: "map_of (assign kvs k v) k = Some v"
  by (induction kvs) auto

lemma map_of_assign_other: "k' \<noteq> k \<Longrightarrow> map_of (assign kvs k v) k' = map_of kvs k'"
  by (induction kvs) auto

section \<open>The response normaliser\<close>

text \<open>
  Claim C10. When the exchange of a dispatched message completes with an empty
  body, whatever the status code, nothing is written to standard output, also
  when the message is a request. It holds for the continuation of
  \<open>handleMessage\<close> with any message and for the step of the event loop that
  settles any suspended exchange.
\<close>

theorem empty_body_no_output:
  "stdout (handleMessage_resume rt msg (Response status (Text [])) s) = stdout s \<and>
   stdout (step rt argv (Settled i (Response status (Text []))) s) = stdout s"
  by (simp add: stdout_resume try_block_def step_def)

theorem empty_body_no_output_witness:
  \<open>stdout (run sample_runtime sample_argv
     [Line (lit ''{"jsonrpc":"2.0","id":1,"method":"ping"}''),
      Settled 0 (Response 200 (Text []))]) = []\<close>
proof -
  have \<open>stdout (step sample_runtime sample_argv
      (Line (lit ''{"jsonrpc":"2.0","id":1,"method":"ping"}'')) (main sample_argv)) = []\<close>
    by (simp add: step_def handleMessage_start_def unhandled_rejection_def process_exit_def
        main_def url_def argv_at_def sample_argv_def fresh_def lit_def
        split: option.split sum.split)
  then show ?thesis
    using empty_body_no_output
      [of sample_runtime
          "JObj [jsonrpc2, (lit ''id'', JNum (Finite 1)), (lit ''method'', JStr (lit ''ping''))]"
          200
          \<open>step sample_runtime sample_argv
             (Line (lit ''{"jsonrpc":"2.0","id":1,"method":"ping"}'')) (main sample_argv)\<close>
          sample_argv 0]
    by (simp add: run_def)
qed

text \<open>
  Claim C4. The exchange of a dispatched message fails with no reply (the
  promise of \<^verbatim>\<open>fetch\<close> is rejected, \<open>detail\<close> being the message of the error).
  For a request, a message whose \<^verbatim>\<open>id\<close> is present and not \<^verbatim>\<open>null\<close>, the one
  write to standard output is the serialised object with \<^verbatim>\<open>jsonrpc\<close> "2.0",
  the \<^verbatim>\<open>id\<close> of the message and the error of code -32603 and message
  "Bridge error: " followed by the detail. For a notification nothing is
  written to standard output and the diagnostic goes to standard error.
\<close>

theorem transport_failure_response:
  "(property msg (lit ''id'') = Some i \<and> i \<noteq> JNull \<longrightarrow>
      stdout (handleMessage_resume rt msg (FetchRejected detail) s) =
        stdout s @
        [JSON_stringify rt
           (JObj [(lit ''jsonrpc'', JStr (lit ''2.0'')), (lit ''id'', i),
                  (lit ''error'',
                   JObj [(lit ''code'', JNum (Finite (- 32603))),
                         (lit ''message'', JStr (lit ''Bridge error: '' @ detail))])])
         @ newline]) \<and>
   (property msg (lit ''id'') = None \<or> property msg (lit ''id'') = Some JNull \<longrightarrow>
      stdout (handleMessage_resume rt msg (FetchRejected detail) s) = stdout s \<and>
      stderr (handleMessage_resume rt msg (FetchRejected detail) s) =
        stderr s @ [lit ''[bridge] Request failed: '' @ detail @ newline])"
  by (auto simp: stdout_resume stderr_resume try_block_def catch_err_def not_nullish_iff
      entry_def Let_def)

theorem transport_failure_response_witness:
  \<open>property (JObj [jsonrpc2, (lit ''id'', JNum (Finite 5)), (lit ''method'', JStr (lit ''x''))])
     (lit ''id'') = Some (JNum (Finite 5)) \<and>
   JNum (Finite 5) \<noteq> JNull \<and>
   stdout (handleMessage_resume sample_runtime
      (JObj [jsonrpc2, (lit ''id'', JNum (Finite 5)), (lit ''method'', JStr (lit ''x''))])
      (FetchRejected (lit ''fetch failed'')) fresh) =
     [lit ''{"jsonrpc":"2.0","id":5,"error":{"code":-32603,"message":"Bridge error: fetch failed"}}''
      @ newline]\<close>
proof -
  have p: "property (JObj [jsonrpc2, (lit ''id'', JNum (Finite 5)), (lit ''method'', JStr (lit ''x''))])
      (lit ''id'') = Some (JNum (Finite 5))"
    by (simp add: lit_def)
  have t: \<open>JSON_stringify sample_runtime
      (JObj [(lit ''jsonrpc'', JStr (lit ''2.0'')), (lit ''id'', JNum (Finite 5)),
             (lit ''error'',
              JObj [(lit ''code'', JNum (Finite (- 32603))),
                    (lit ''message'', JStr (lit ''Bridge error: '' @ lit ''fetch failed''))])])
      = lit ''{"jsonrpc":"2.0","id":5,"error":{"code":-32603,"message":"Bridge error: fetch failed"}}''\<close>
    by (simp add: sample_runtime_def sample_texts_def lit_def)
  show ?thesis
    using transport_failure_response
      [of "JObj [jsonrpc2, (lit ''id'', JNum (Finite 5)), (lit ''method'', JStr (lit ''x''))]"
          "JNum (Finite 5)" sample_runtime "lit ''fetch failed''" fresh] p t
    by (simp add: fresh_def)
qed

text \<open>
  Claim C5, as the code has it. The reply has a status other than 204 and a
  non-empty body that \<^verbatim>\<open>JSON.parse\<close> rejects. For a request the diagnostic
  with the first 200 code units of the body goes to standard error and the
  serialised error object of code -32603 and message
  "Server returned non-JSON response", with the \<^verbatim>\<open>id\<close> of the request, goes to
  standard output. For a notification nothing is written to either stream:
  the diagnostic is inside the same \<^verbatim>\<open>if (msg.id != null)\<close> as the reply (the
  comment of line 76 says "only report for requests, not notifications").
\<close>

theorem non_json_reply:
  "status \<noteq> 204 \<Longrightarrow> body \<noteq> [] \<Longrightarrow> JSON_parse rt body = None \<Longrightarrow>
   (property msg (lit ''id'') = Some i \<and> i \<noteq> JNull \<longrightarrow>
      stderr (handleMessage_resume rt msg (Response status (Text body)) s) =
        stderr s @ [lit ''[bridge] Non-JSON response: '' @ take 200 body @ newline] \<and>
      length (take 200 body) \<le> 200 \<and>
      stdout (handleMessage_resume rt msg (Response status (Text body)) s) =
        stdout s @
        [JSON_stringify rt
           (JObj [(lit ''jsonrpc'', JStr (lit ''2.0'')), (lit ''id'', i),
                  (lit ''error'',
                   JObj [(lit ''code'', JNum (Finite (- 32603))),
                         (lit ''message'', JStr (lit ''Server returned non-JSON response''))])])
         @ newline]) \<and>
   (property msg (lit ''id'') = None \<or> property msg (lit ''id'') = Some JNull \<longrightarrow>
      stdout (handleMessage_resume rt msg (Response status (Text body)) s) = stdout s \<and>
      stderr (handleMessage_resume rt msg (Response status (Text body)) s) = stderr s)"
  by (auto simp: stdout_resume stderr_resume try_block_def catch_non_json_def not_nullish_iff entry_def)

theorem non_json_reply_witness:
  \<open>(200::nat) \<noteq> 204 \<and> lit ''oops'' \<noteq> [] \<and> JSON_parse sample_runtime (lit ''oops'') = None \<and>
   property (JObj [jsonrpc2, (lit ''id'', JNum (Finite 1)), (lit ''method'', JStr (lit ''ping''))])
     (lit ''id'') = Some (JNum (Finite 1)) \<and>
   stderr (handleMessage_resume sample_runtime
      (JObj [jsonrpc2, (lit ''id'', JNum (Finite 1)), (lit ''method'', JStr (lit ''ping''))])
      (Response 200 (Text (lit ''oops''))) fresh) =
     [lit ''[bridge] Non-JSON response: oops'' @ newline] \<and>
   stdout (handleMessage_resume sample_runtime
      (JObj [jsonrpc2, (lit ''id'', JNum (Finite 1)), (lit ''method'', JStr (lit ''ping''))])
      (Response 200 (Text (lit ''oops''))) fresh) =
     [lit ''{"jsonrpc":"2.0","id":1,"error":{"code":-32603,"message":"Server returned non-JSON response"}}''
      @ newline]\<close>
proof -
  have p: "JSON_parse sample_runtime (lit ''oops'') = None"
    by (simp add: sample_runtime_def sample_texts_def lit_def)
  have i: "property (JObj [jsonrpc2, (lit ''id'', JNum (Finite 1)), (lit ''method'', JStr (lit ''ping''))])
     (lit ''id'') = Some (JNum (Finite 1))"
    by (simp add: lit_def)
  have n: "lit ''oops'' \<noteq> []"
    by (simp add: lit_def)
  have k: "take 200 (lit ''oops'') = lit ''oops''"
    by (simp add: lit_def)
  have t: \<open>JSON_stringify sample_runtime
      (JObj [(lit ''jsonrpc'', JStr (lit ''2.0'')), (lit ''id'', JNum (Finite 1)),
             (lit ''error'',
              JObj [(lit ''code'', JNum (Finite (- 32603))),
                    (lit ''message'', JStr (lit ''Server returned non-JSON response''))])])
      = lit ''{"jsonrpc":"2.0","id":1,"error":{"code":-32603,"message":"Server returned non-JSON response"}}''\<close>
    by (simp add: sample_runtime_def sample_texts_def lit_def)
  have a: "lit ''[bridge] Non-JSON response: '' @ lit ''oops'' = lit ''[bridge] Non-JSON response: oops''"
    by (simp add: lit_def)
  show ?thesis
    using non_json_reply
      [where status = 200 and body = "lit ''oops''" and rt = sample_runtime
         and msg = "JObj [jsonrpc2, (lit ''id'', JNum (Finite 1)), (lit ''method'', JStr (lit ''ping''))]"
         and i = "JNum (Finite 1)" and s = fresh] p i n k t a
    by (simp add: fresh_def)
qed

text \<open>
  Claim C5 as stated asks for the diagnostic in the notification case too. A
  notification whose reply is the text \<^verbatim>\<open>oops\<close> leaves standard error as it was.
\<close>

theorem non_json_notification_not_logged:
  \<open>JSON_parse sample_runtime (lit ''oops'') = None \<and>
   property (JObj [jsonrpc2, (lit ''method'', JStr (lit ''notifications/initialized''))]) (lit ''id'') = None \<and>
   stderr (handleMessage_resume sample_runtime
      (JObj [jsonrpc2, (lit ''method'', JStr (lit ''notifications/initialized''))])
      (Response 200 (Text (lit ''oops''))) fresh) = []\<close>
proof -
  have p: "JSON_parse sample_runtime (lit ''oops'') = None"
    by (simp add: sample_runtime_def sample_texts_def lit_def)
  have i: "property (JObj [jsonrpc2, (lit ''method'', JStr (lit ''notifications/initialized''))]) (lit ''id'') = None"
    by (simp add: lit_def)
  have n: "lit ''oops'' \<noteq> []"
    by (simp add: lit_def)
  show ?thesis
    using p i n
    by (simp add: stderr_resume try_block_def catch_non_json_def not_nullish_def fresh_def)
qed

text \<open>
  Claim C3. The reply has a status other than 204 (a 204 reply has no body)
  and a non-empty body that parses as a JSON object. When the object has an
  \<^verbatim>\<open>id\<close> that is not \<^verbatim>\<open>null\<close>, the write to standard output is the body text
  itself followed by a newline, with no serialisation. When its \<^verbatim>\<open>id\<close> is
  absent or \<^verbatim>\<open>null\<close> and the message is a request, the write is the
  serialisation of the reply object with \<^verbatim>\<open>id\<close> set to the request's own id,
  every other property as it was. When its \<^verbatim>\<open>id\<close> is absent or \<^verbatim>\<open>null\<close> and
  the message is a notification, nothing is written. A request is a message
  whose \<^verbatim>\<open>id\<close> is present and not \<^verbatim>\<open>null\<close>, the test of line 66.
\<close>

theorem json_object_reply:
  "status \<noteq> 204 \<Longrightarrow> body \<noteq> [] \<Longrightarrow> JSON_parse rt body = Some (JObj reply) \<Longrightarrow>
   ((\<exists>r. map_of reply (lit ''id'') = Some r \<and> r \<noteq> JNull) \<longrightarrow>
      stdout (handleMessage_resume rt msg (Response status (Text body)) s) =
        stdout s @ [body @ newline]) \<and>
   ((map_of reply (lit ''id'') = None \<or> map_of reply (lit ''id'') = Some JNull) \<and>
    property msg (lit ''id'') = Some i \<and> i \<noteq> JNull \<longrightarrow>
      stdout (handleMessage_resume rt msg (Response status (Text body)) s) =
        stdout s @ [JSON_stringify rt (JObj (assign reply (lit ''id'') i)) @ newline] \<and>
      property (JObj (assign reply (lit ''id'') i)) (lit ''id'') = Some i \<and>
      (\<forall>k. k \<noteq> lit ''id'' \<longrightarrow>
         property (JObj (assign reply (lit ''id'') i)) k = property (JObj reply) k)) \<and>
   ((map_of reply (lit ''id'') = None \<or> map_of reply (lit ''id'') = Some JNull) \<and>
    (property msg (lit ''id'') = None \<or> property msg (lit ''id'') = Some JNull) \<longrightarrow>
      stdout (handleMessage_resume rt msg (Response status (Text body)) s) = stdout s)"
  by (auto simp: stdout_resume try_block_def get_prop_def not_nullish_iff map_of_assign map_of_assign_other)

theorem json_object_reply_witness:
  \<open>(200::nat) \<noteq> 204 \<and>
   lit ''{"jsonrpc":"2.0","result":{}}'' \<noteq> [] \<and>
   JSON_parse sample_runtime (lit ''{"jsonrpc":"2.0","result":{}}'') =
     Some (JObj [jsonrpc2, (lit ''result'', JObj [])]) \<and>
   map_of [jsonrpc2, (lit ''result'', JObj [])] (lit ''id'') = None \<and>
   property (JObj [jsonrpc2, (lit ''id'', JNum (Finite 0)), (lit ''method'', JStr (lit ''ping''))])
     (lit ''id'') = Some (JNum (Finite 0)) \<and>
   stdout (handleMessage_resume sample_runtime
      (JObj [jsonrpc2, (lit ''id'', JNum (Finite 0)), (lit ''method'', JStr (lit ''ping''))])
      (Response 200 (Text (lit ''{"jsonrpc":"2.0","result":{}}''))) fresh) =
     [lit ''{"jsonrpc":"2.0","result":{},"id":0}'' @ newline]\<close>
proof -
  have n: \<open>lit ''{"jsonrpc":"2.0","result":{}}'' \<noteq> []\<close>
    by (simp add: lit_def)
  have p: \<open>JSON_parse sample_runtime (lit ''{"jsonrpc":"2.0","result":{}}'') =
     Some (JObj [jsonrpc2, (lit ''result'', JObj [])])\<close>
    by (simp add: sample_runtime_def sample_texts_def lit_def)
  have r: "map_of [jsonrpc2, (lit ''result'', JObj [])] (lit ''id'') = None"
    by (simp add: lit_def)
  have i: "property (JObj [jsonrpc2, (lit ''id'', JNum (Finite 0)), (lit ''method'', JStr (lit ''ping''))])
     (lit ''id'') = Some (JNum (Finite 0))"
    by (simp add: lit_def)
  have a: "assign [jsonrpc2, (lit ''result'', JObj [])] (lit ''id'') (JNum (Finite 0)) =
     [jsonrpc2, (lit ''result'', JObj []), (lit ''id'', JNum (Finite 0))]"
    by (simp add: lit_def)
  have t: \<open>JSON_stringify sample_runtime
      (JObj [jsonrpc2, (lit ''result'', JObj []), (lit ''id'', JNum (Finite 0))]) =
      lit ''{"jsonrpc":"2.0","result":{},"id":0}''\<close>
    by (simp add: sample_runtime_def sample_texts_def lit_def)
  show ?thesis
    using json_object_reply
      [where status = 200 and body = \<open>lit ''{"jsonrpc":"2.0","result":{}}''\<close>
         and rt = sample_runtime and reply = "[jsonrpc2, (lit ''result'', JObj [])]"
         and msg = "JObj [jsonrpc2, (lit ''id'', JNum (Finite 0)), (lit ''method'', JStr (lit ''ping''))]"
         and i = "JNum (Finite 0)" and s = fresh] n p r i a t
    by (simp add: fresh_def)
qed

section \<open>What a request receives\<close>

lemma try_block_FetchRejected:
  "try_block rt msg (FetchRejected d) s = catch_err rt msg d s"
  by (simp add: try_block_def)

lemma try_block_204: "try_block rt msg (Response 204 t) s = s"
  by (simp add: try_block_def)

lemma try_block_TextRejected:
  "status \<noteq> 204 \<Longrightarrow> try_block rt msg (Response status (TextRejected d)) s = catch_err rt msg d s"
  by (simp add: try_block_def)

lemma try_block_empty: "try_block rt msg (Response status (Text [])) s = s"
  by (simp add: try_block_def)

lemma try_block_Text:
  "status \<noteq> 204 \<Longrightarrow> body \<noteq> [] \<Longrightarrow>
   try_block rt msg (Response status (Text body)) s =
     (case JSON_parse rt body of
        None \<Rightarrow> catch_non_json rt msg body s
      | Some JNull \<Rightarrow> catch_non_json rt msg body s
      | Some parsed \<Rightarrow>
          if property parsed (lit ''id'') = Some JNull \<or> property parsed (lit ''id'') = None then
            (if not_nullish (property msg (lit ''id'')) then
               write_stdout
                 (JSON_stringify rt (set_prop parsed (lit ''id'') (property msg (lit ''id'')))
                  @ newline) s
             else s)
          else write_stdout (body @ newline) s)"
  by (simp add: try_block_def get_prop_def split: option.split json.split)

lemma stdout_catch_err_request:
  "property msg (lit ''id'') = Some i \<Longrightarrow> i \<noteq> JNull \<Longrightarrow>
   stdout (catch_err rt msg d s) =
     stdout s @
     [JSON_stringify rt
        (JObj [(lit ''jsonrpc'', JStr (lit ''2.0'')), (lit ''id'', i),
               (lit ''error'',
                JObj [(lit ''code'', JNum (Finite (- 32603))),
                      (lit ''message'', JStr (lit ''Bridge error: '' @ d))])])
      @ newline]"
  by (simp add: catch_err_def not_nullish_iff entry_def Let_def)

lemma stdout_catch_non_json_request:
  "property msg (lit ''id'') = Some i \<Longrightarrow> i \<noteq> JNull \<Longrightarrow>
   stdout (catch_non_json rt msg body s) =
     stdout s @
     [JSON_stringify rt
        (JObj [(lit ''jsonrpc'', JStr (lit ''2.0'')), (lit ''id'', i),
               (lit ''error'',
                JObj [(lit ''code'', JNum (Finite (- 32603))),
                      (lit ''message'', JStr (lit ''Server returned non-JSON response''))])])
      @ newline]"
  by (simp add: catch_non_json_def not_nullish_iff entry_def)

lemma stdout_try_block_Text_request:
  assumes "property msg (lit ''id'') = Some i" and "i \<noteq> JNull"
    and "status \<noteq> 204" and "body \<noteq> []"
  shows "\<exists>w. stdout (try_block rt msg (Response status (Text body)) s) = stdout s @ [w]"
  using assms
  by (auto simp: try_block_Text stdout_catch_non_json_request not_nullish_iff
      split: option.split json.split)

lemma request_writes:
  assumes "property msg (lit ''id'') = Some i" and "i \<noteq> JNull"
  shows "\<exists>ws. stdout (try_block rt msg oc s) = stdout s @ ws \<and> length ws \<le> 1 \<and>
         (ws = [] \<longleftrightarrow> (\<exists>t. oc = Response 204 t) \<or> (\<exists>st. oc = Response st (Text [])))"
proof (cases oc)
  case (FetchRejected d)
  then show ?thesis
    by (simp add: try_block_FetchRejected stdout_catch_err_request [OF assms])
next
  case (Response st t)
  show ?thesis
  proof (cases "st = 204")
    case True
    with Response show ?thesis by (simp add: try_block_204)
  next
    case ne: False
    show ?thesis
    proof (cases t)
      case (TextRejected d)
      with Response ne show ?thesis
        by (simp add: try_block_TextRejected stdout_catch_err_request [OF assms])
    next
      case (Text body)
      show ?thesis
      proof (cases "body = []")
        case True
        with Response Text show ?thesis by (simp add: try_block_empty)
      next
        case False
        from stdout_try_block_Text_request [OF assms ne False]
        obtain w where "stdout (try_block rt msg (Response st (Text body)) s) = stdout s @ [w]"
          by blast
        with Response Text ne False show ?thesis by simp
      qed
    qed
  qed
qed

lemma request_unparsable_body:
  assumes "property msg (lit ''id'') = Some i" and "i \<noteq> JNull"
    and "status \<noteq> 204" and "body \<noteq> []"
    and "JSON_parse rt body = None \<or> JSON_parse rt body = Some JNull"
  shows "stdout (try_block rt msg (Response status (Text body)) s) =
           stdout s @
           [JSON_stringify rt
              (JObj [(lit ''jsonrpc'', JStr (lit ''2.0'')), (lit ''id'', i),
                     (lit ''error'',
                      JObj [(lit ''code'', JNum (Finite (- 32603))),
                            (lit ''message'', JStr (lit ''Server returned non-JSON response''))])])
            @ newline]"
  using assms(3,4,5)
  by (auto simp: try_block_Text stdout_catch_non_json_request [OF assms(1,2)])

lemma request_reply_without_id:
  assumes "property msg (lit ''id'') = Some i" and "i \<noteq> JNull"
    and "status \<noteq> 204" and "body \<noteq> []"
    and "JSON_parse rt body = Some (JObj reply)"
    and "map_of reply (lit ''id'') = None \<or> map_of reply (lit ''id'') = Some JNull"
  shows "stdout (try_block rt msg (Response status (Text body)) s) =
           stdout s @ [JSON_stringify rt (JObj (assign reply (lit ''id'') i)) @ newline]"
proof -
  have nn: "not_nullish (Some i)"
    using assms(2) by (simp add: not_nullish_iff)
  show ?thesis
    using assms(1,3,4,5,6) by (auto simp: try_block_Text nn)
qed

lemma reply_with_id_relayed:
  assumes "status \<noteq> 204" and "body \<noteq> []"
    and "JSON_parse rt body = Some (JObj reply)"
    and "map_of reply (lit ''id'') = Some r" and "r \<noteq> JNull"
  shows "stdout (try_block rt msg (Response status (Text body)) s) = stdout s @ [body @ newline]"
  using assms by (simp add: try_block_Text)

text \<open>
  Claim C1, as the code has it. The message is a request: its \<^verbatim>\<open>id\<close> is present
  and not \<^verbatim>\<open>null\<close>. Whatever the exchange settles with, at most one write
  goes to standard output, and none exactly when the status is 204 or the body
  text is empty. A failed exchange (a rejected \<^verbatim>\<open>fetch\<close>, or a rejected read of
  the body) gives the serialised "Bridge error" object with the request's id,
  followed by a newline. A body that \<^verbatim>\<open>JSON.parse\<close> rejects, or whose value is
  \<^verbatim>\<open>null\<close>, gives the serialised "non-JSON response" error object with the
  request's id, followed by a newline. A reply object whose \<^verbatim>\<open>id\<close> is absent
  or \<^verbatim>\<open>null\<close> is serialised with the request's id assigned, followed by a
  newline. A reply object with an id of its own that is not \<^verbatim>\<open>null\<close> is
  passed on as received: the write is the body text followed by a newline,
  with the id and the line breaks that the body has.
\<close>

theorem request_outcome:
  assumes "property msg (lit ''id'') = Some i" and "i \<noteq> JNull"
  shows
  "(\<exists>ws. stdout (handleMessage_resume rt msg oc s) = stdout s @ ws \<and> length ws \<le> 1 \<and>
         (ws = [] \<longleftrightarrow> (\<exists>t. oc = Response 204 t) \<or> (\<exists>st. oc = Response st (Text [])))) \<and>
   (oc = FetchRejected detail \<or> (status \<noteq> 204 \<and> oc = Response status (TextRejected detail)) \<longrightarrow>
      stdout (handleMessage_resume rt msg oc s) =
        stdout s @
        [JSON_stringify rt
           (JObj [(lit ''jsonrpc'', JStr (lit ''2.0'')), (lit ''id'', i),
                  (lit ''error'',
                   JObj [(lit ''code'', JNum (Finite (- 32603))),
                         (lit ''message'', JStr (lit ''Bridge error: '' @ detail))])])
         @ newline]) \<and>
   (status \<noteq> 204 \<and> body \<noteq> [] \<and> oc = Response status (Text body) \<and>
    (JSON_parse rt body = None \<or> JSON_parse rt body = Some JNull) \<longrightarrow>
      stdout (handleMessage_resume rt msg oc s) =
        stdout s @
        [JSON_stringify rt
           (JObj [(lit ''jsonrpc'', JStr (lit ''2.0'')), (lit ''id'', i),
                  (lit ''error'',
                   JObj [(lit ''code'', JNum (Finite (- 32603))),
                         (lit ''message'', JStr (lit ''Server returned non-JSON response''))])])
         @ newline]) \<and>
   (status \<noteq> 204 \<and> body \<noteq> [] \<and> oc = Response status (Text body) \<and>
    JSON_parse rt body = Some (JObj reply) \<and>
    (map_of reply (lit ''id'') = None \<or> map_of reply (lit ''id'') = Some JNull) \<longrightarrow>
      stdout (handleMessage_resume rt msg oc s) =
        stdout s @ [JSON_stringify rt (JObj (assign reply (lit ''id'') i)) @ newline] \<and>
      map_of (assign reply (lit ''id'') i) (lit ''id'') = Some i) \<and>
   (status \<noteq> 204 \<and> body \<noteq> [] \<and> oc = Response status (Text body) \<and>
    JSON_parse rt body = Some (JObj reply) \<and>
    map_of reply (lit ''id'') = Some r \<and> r \<noteq> JNull \<longrightarrow>
      stdout (handleMessage_resume rt msg oc s) = stdout s @ [body @ newline])"
proof -
  have one: "\<exists>ws. stdout (handleMessage_resume rt msg oc s) = stdout s @ ws \<and> length ws \<le> 1 \<and>
         (ws = [] \<longleftrightarrow> (\<exists>t. oc = Response 204 t) \<or> (\<exists>st. oc = Response st (Text [])))"
    unfolding stdout_resume by (rule request_writes [OF assms])
  have failed: "oc = FetchRejected detail \<or> (status \<noteq> 204 \<and> oc = Response status (TextRejected detail)) \<longrightarrow>
      stdout (handleMessage_resume rt msg oc s) =
        stdout s @
        [JSON_stringify rt
           (JObj [(lit ''jsonrpc'', JStr (lit ''2.0'')), (lit ''id'', i),
                  (lit ''error'',
                   JObj [(lit ''code'', JNum (Finite (- 32603))),
                         (lit ''message'', JStr (lit ''Bridge error: '' @ detail))])])
         @ newline]"
    unfolding stdout_resume
    by (auto simp: try_block_FetchRejected try_block_TextRejected
        stdout_catch_err_request [OF assms])
  have unparsable: "status \<noteq> 204 \<and> body \<noteq> [] \<and> oc = Response status (Text body) \<and>
    (JSON_parse rt body = None \<or> JSON_parse rt body = Some JNull) \<longrightarrow>
      stdout (handleMessage_resume rt msg oc s) =
        stdout s @
        [JSON_stringify rt
           (JObj [(lit ''jsonrpc'', JStr (lit ''2.0'')), (lit ''id'', i),
                  (lit ''error'',
                   JObj [(lit ''code'', JNum (Finite (- 32603))),
                         (lit ''message'', JStr (lit ''Server returned non-JSON response''))])])
         @ newline]"
    unfolding stdout_resume
    using request_unparsable_body [OF assms, of status body rt s] by blast
  have repaired: "status \<noteq> 204 \<and> body \<noteq> [] \<and> oc = Response status (Text body) \<and>
    JSON_parse rt body = Some (JObj reply) \<and>
    (map_of reply (lit ''id'') = None \<or> map_of reply (lit ''id'') = Some JNull) \<longrightarrow>
      stdout (handleMessage_resume rt msg oc s) =
        stdout s @ [JSON_stringify rt (JObj (assign reply (lit ''id'') i)) @ newline] \<and>
      map_of (assign reply (lit ''id'') i) (lit ''id'') = Some i"
    unfolding stdout_resume
    using request_reply_without_id [OF assms, of status body rt reply s]
    by (auto simp: map_of_assign)
  have relayed: "status \<noteq> 204 \<and> body \<noteq> [] \<and> oc = Response status (Text body) \<and>
    JSON_parse rt body = Some (JObj reply) \<and>
    map_of reply (lit ''id'') = Some r \<and> r \<noteq> JNull \<longrightarrow>
      stdout (handleMessage_resume rt msg oc s) = stdout s @ [body @ newline]"
    unfolding stdout_resume
    using reply_with_id_relayed [of status body rt reply r msg s] by blast
  from one failed unparsable repaired relayed show ?thesis
    by blast
qed

theorem request_outcome_witness:
  \<open>property (JObj [jsonrpc2, (lit ''id'', JNum (Finite 1)), (lit ''method'', JStr (lit ''ping''))])
     (lit ''id'') = Some (JNum (Finite 1)) \<and>
   JNum (Finite 1) \<noteq> JNull \<and>
   stdout (handleMessage_resume sample_runtime
      (JObj [jsonrpc2, (lit ''id'', JNum (Finite 1)), (lit ''method'', JStr (lit ''ping''))])
      (Response 200 (Text (lit ''{"jsonrpc":"2.0","id":1,"result":{}}''))) fresh) =
     [lit ''{"jsonrpc":"2.0","id":1,"result":{}}'' @ newline]\<close>
proof -
  have i: "property (JObj [jsonrpc2, (lit ''id'', JNum (Finite 1)), (lit ''method'', JStr (lit ''ping''))])
     (lit ''id'') = Some (JNum (Finite 1))"
    by (simp add: lit_def)
  have n: \<open>lit ''{"jsonrpc":"2.0","id":1,"result":{}}'' \<noteq> []\<close>
    by (simp add: lit_def)
  have p: \<open>JSON_parse sample_runtime (lit ''{"jsonrpc":"2.0","id":1,"result":{}}'') =
     Some (JObj [jsonrpc2, (lit ''id'', JNum (Finite 1)), (lit ''result'', JObj [])])\<close>
    by (simp add: sample_runtime_def sample_texts_def lit_def)
  have r: "map_of [jsonrpc2, (lit ''id'', JNum (Finite 1)), (lit ''result'', JObj [])] (lit ''id'')
     = Some (JNum (Finite 1))"
    by (simp add: lit_def)
  show ?thesis
    using request_outcome
      [where msg = "JObj [jsonrpc2, (lit ''id'', JNum (Finite 1)), (lit ''method'', JStr (lit ''ping''))]"
         and i = "JNum (Finite 1)" and rt = sample_runtime and s = fresh and status = 200
         and body = \<open>lit ''{"jsonrpc":"2.0","id":1,"result":{}}''\<close>
         and oc = \<open>Response 200 (Text (lit ''{"jsonrpc":"2.0","id":1,"result":{}}''))\<close>
         and reply = "[jsonrpc2, (lit ''id'', JNum (Finite 1)), (lit ''result'', JObj [])]"
         and r = "JNum (Finite 1)",
       OF i] n p r
    by (simp add: fresh_def lit_def)
qed

lemma main_sample: "main sample_argv =
   write_stderr (lit ''[bridge] Connected to '' @ lit ''https://my-server.com/mcp'' @ newline) fresh"
  by (simp add: main_def url_def argv_at_def sample_argv_def lit_def)

text \<open>
  Claim C1 as stated promises a line for every outcome. A request with id 1
  whose exchange completes with status 204 is dispatched (one request is
  sent), its exchange is accounted for (\<open>pending\<close> is back to 0), and standard
  output stays empty.
\<close>

theorem request_204_no_output:
  \<open>JSON_parse sample_runtime (lit ''{"jsonrpc":"2.0","id":1,"method":"ping"}'') =
     Some (JObj [jsonrpc2, (lit ''id'', JNum (Finite 1)), (lit ''method'', JStr (lit ''ping''))]) \<and>
   stdout (run sample_runtime sample_argv
     [Line (lit ''{"jsonrpc":"2.0","id":1,"method":"ping"}''),
      Settled 0 (Response 204 (Text []))]) = [] \<and>
   length (requests (run sample_runtime sample_argv
     [Line (lit ''{"jsonrpc":"2.0","id":1,"method":"ping"}''),
      Settled 0 (Response 204 (Text []))])) = 1 \<and>
   pending (run sample_runtime sample_argv
     [Line (lit ''{"jsonrpc":"2.0","id":1,"method":"ping"}''),
      Settled 0 (Response 204 (Text []))]) = 0\<close>
proof -
  have p: \<open>JSON_parse sample_runtime (lit ''{"jsonrpc":"2.0","id":1,"method":"ping"}'') =
     Some (JObj [jsonrpc2, (lit ''id'', JNum (Finite 1)), (lit ''method'', JStr (lit ''ping''))])\<close>
    by (simp add: sample_runtime_def sample_texts_def lit_def)
  have m: "get_prop (JObj [jsonrpc2, (lit ''id'', JNum (Finite 1)), (lit ''method'', JStr (lit ''ping''))])
      (lit ''method'') = Inr (Some (JStr (lit ''ping'')))"
    by (simp add: get_prop_def lit_def)
  have t: "truthy (Some (JStr (lit ''ping'')))"
    by (simp add: lit_def)
  show ?thesis
    using p m t
    by (simp add: run_def step_def main_sample handleMessage_start_def handleMessage_resume_def
        try_block_def maybeExit_def process_exit_def write_stderr_def fresh_def Let_def)
qed

section \<open>Requests and notifications\<close>

text \<open>
  Claim C2, as the code has it. The bridge has one test for "this message
  expects an answer", \<^verbatim>\<open>msg.id != null\<close> (lines 66, 77 and 93). For a parsed
  object it holds exactly when the \<^verbatim>\<open>id\<close> key is present with a value other
  than \<^verbatim>\<open>null\<close>: such a message is answered when its exchange fails, and a
  message whose \<^verbatim>\<open>id\<close> is absent or \<^verbatim>\<open>null\<close> is not. Truthiness plays no
  part: the falsy ids 0, "" and false make a request. A parsed object is
  dispatched exactly when its \<^verbatim>\<open>method\<close> is truthy.
\<close>

theorem request_iff_id_not_null:
  "(not_nullish (property (JObj kvs) (lit ''id'')) \<longleftrightarrow>
      (\<exists>v. map_of kvs (lit ''id'') = Some v \<and> v \<noteq> JNull)) \<and>
   (stdout (handleMessage_resume rt (JObj kvs) (FetchRejected detail) s) \<noteq> stdout s \<longleftrightarrow>
      (\<exists>v. map_of kvs (lit ''id'') = Some v \<and> v \<noteq> JNull)) \<and>
   (stdout (handleMessage_resume rt (JObj kvs) (FetchRejected detail) s) = stdout s \<longleftrightarrow>
      map_of kvs (lit ''id'') = None \<or> map_of kvs (lit ''id'') = Some JNull) \<and>
   (map_of kvs (lit ''id'') = Some v \<and> (v = JNum (Finite 0) \<or> v = JStr [] \<or> v = JBool False) \<longrightarrow>
      \<not> truthy (Some v) \<and> not_nullish (property (JObj kvs) (lit ''id''))) \<and>
   (JSON_parse rt raw = Some (JObj kvs) \<longrightarrow>
      (inflight (handleMessage_start rt argv raw s) = inflight s @ [JObj kvs]) =
        truthy (map_of kvs (lit ''method'')))"
proof -
  have a: "not_nullish (property (JObj kvs) (lit ''id'')) \<longleftrightarrow>
      (\<exists>v. map_of kvs (lit ''id'') = Some v \<and> v \<noteq> JNull)"
    by (simp add: not_nullish_iff)
  have b: "stdout (handleMessage_resume rt (JObj kvs) (FetchRejected detail) s) \<noteq> stdout s \<longleftrightarrow>
      not_nullish (property (JObj kvs) (lit ''id''))"
    by (simp add: stdout_resume try_block_def catch_err_def Let_def)
  have c: "(\<not> (\<exists>v. map_of kvs (lit ''id'') = Some v \<and> v \<noteq> JNull)) \<longleftrightarrow>
      map_of kvs (lit ''id'') = None \<or> map_of kvs (lit ''id'') = Some JNull"
    by (cases "map_of kvs (lit ''id'')") auto
  have d: "map_of kvs (lit ''id'') = Some v \<and> (v = JNum (Finite 0) \<or> v = JStr [] \<or> v = JBool False) \<longrightarrow>
      \<not> truthy (Some v) \<and> not_nullish (property (JObj kvs) (lit ''id''))"
    by (auto simp: not_nullish_iff)
  have e: "JSON_parse rt raw = Some (JObj kvs) \<longrightarrow>
      (inflight (handleMessage_start rt argv raw s) = inflight s @ [JObj kvs]) =
        truthy (map_of kvs (lit ''method''))"
    by (simp add: handleMessage_start_def get_prop_def)
  from a b c d e show ?thesis by blast
qed

theorem request_iff_id_not_null_witness:
  \<open>map_of [jsonrpc2, (lit ''id'', JNum (Finite 0)), (lit ''method'', JStr (lit ''ping''))]
     (lit ''id'') = Some (JNum (Finite 0)) \<and>
   \<not> truthy (Some (JNum (Finite 0))) \<and>
   not_nullish (property
     (JObj [jsonrpc2, (lit ''id'', JNum (Finite 0)), (lit ''method'', JStr (lit ''ping''))])
     (lit ''id'')) \<and>
   stdout (handleMessage_resume sample_runtime
     (JObj [jsonrpc2, (lit ''id'', JNum (Finite 0)), (lit ''method'', JStr (lit ''ping''))])
     (FetchRejected (lit ''fetch failed'')) fresh) \<noteq> stdout fresh\<close>
proof -
  have i: "map_of [jsonrpc2, (lit ''id'', JNum (Finite 0)), (lit ''method'', JStr (lit ''ping''))]
     (lit ''id'') = Some (JNum (Finite 0))"
    by (simp add: lit_def)
  then have x: "\<exists>v. map_of [jsonrpc2, (lit ''id'', JNum (Finite 0)), (lit ''method'', JStr (lit ''ping''))]
     (lit ''id'') = Some v \<and> v \<noteq> JNull"
    by blast
  show ?thesis
    using request_iff_id_not_null
      [where kvs = "[jsonrpc2, (lit ''id'', JNum (Finite 0)), (lit ''method'', JStr (lit ''ping''))]"
         and v = "JNum (Finite 0)" and rt = sample_runtime and detail = "lit ''fetch failed''"
         and s = fresh] i x
    by blast
qed

text \<open>
  Claim C2 as stated makes a request of every message that has an \<^verbatim>\<open>id\<close>
  key, the value \<^verbatim>\<open>null\<close> included. The line with \<^verbatim>\<open>"id":null\<close> has the key,
  is dispatched, and receives nothing when its exchange fails: it is handled
  as a notification.
\<close>

theorem null_id_is_notification:
  \<open>JSON_parse sample_runtime (lit ''{"jsonrpc":"2.0","id":null,"method":"ping"}'') =
     Some (JObj [jsonrpc2, (lit ''id'', JNull), (lit ''method'', JStr (lit ''ping''))]) \<and>
   map_of [jsonrpc2, (lit ''id'', JNull), (lit ''method'', JStr (lit ''ping''))] (lit ''id'') =
     Some JNull \<and>
   inflight (run sample_runtime sample_argv
     [Line (lit ''{"jsonrpc":"2.0","id":null,"method":"ping"}'')]) =
     [JObj [jsonrpc2, (lit ''id'', JNull), (lit ''method'', JStr (lit ''ping''))]] \<and>
   stdout (run sample_runtime sample_argv
     [Line (lit ''{"jsonrpc":"2.0","id":null,"method":"ping"}''),
      Settled 0 (FetchRejected (lit ''fetch failed''))]) = []\<close>
proof -
  have p: \<open>JSON_parse sample_runtime (lit ''{"jsonrpc":"2.0","id":null,"method":"ping"}'') =
     Some (JObj [jsonrpc2, (lit ''id'', JNull), (lit ''method'', JStr (lit ''ping''))])\<close>
    by (simp add: sample_runtime_def sample_texts_def lit_def)
  have i: "map_of [jsonrpc2, (lit ''id'', JNull), (lit ''method'', JStr (lit ''ping''))] (lit ''id'') =
     Some JNull"
    by (simp add: lit_def)
  have m: "get_prop (JObj [jsonrpc2, (lit ''id'', JNull), (lit ''method'', JStr (lit ''ping''))])
      (lit ''method'') = Inr (Some (JStr (lit ''ping'')))"
    by (simp add: get_prop_def lit_def)
  have t: "truthy (Some (JStr (lit ''ping'')))"
    by (simp add: lit_def)
  have n: "\<not> not_nullish (property
      (JObj [jsonrpc2, (lit ''id'', JNull), (lit ''method'', JStr (lit ''ping''))]) (lit ''id''))"
    by (simp add: not_nullish_def lit_def)
  show ?thesis
    using p i m t n
    by (simp add: run_def step_def main_sample handleMessage_start_def stdout_resume
        try_block_def catch_err_def write_stderr_def fresh_def Let_def)
qed

section \<open>The lifecycle\<close>

lemma try_block_fields:
  "pending (try_block rt msg oc s) = pending s"
  "stdinClosed (try_block rt msg oc s) = stdinClosed s"
  "exitCode (try_block rt msg oc s) = exitCode s"
  "inflight (try_block rt msg oc s) = inflight s"
  "requests (try_block rt msg oc s) = requests s"
  by (simp_all add: try_block_def catch_err_def catch_non_json_def write_stdout_def
      write_stderr_def Let_def split: outcome.split body_read.split option.split sum.split)

lemma resume_fields:
  "pending (handleMessage_resume rt msg oc s) = pending s - 1"
  "stdinClosed (handleMessage_resume rt msg oc s) = stdinClosed s"
  "inflight (handleMessage_resume rt msg oc s) = inflight s"
  "requests (handleMessage_resume rt msg oc s) = requests s"
  "exitCode (handleMessage_resume rt msg oc s) =
     (if stdinClosed s \<and> pending s = 1 then Some 0 else exitCode s)"
  by (simp_all add: handleMessage_resume_def maybeExit_def process_exit_def Let_def try_block_fields)

lemma main_fields:
  "pending (main argv) = 0"
  "stdinClosed (main argv) = False"
  "inflight (main argv) = []"
  "requests (main argv) = []"
  "stdout (main argv) = []"
  "unhandled (main argv) = False"
  "exitCode (main argv) = (case url argv of None \<Rightarrow> Some 1 | Some u \<Rightarrow> if u = [] then Some 1 else None)"
  by (simp_all add: main_def fresh_def process_exit_def write_stderr_def split: option.split)

lemma step_exited: "exitCode s \<noteq> None \<Longrightarrow> step rt argv ev s = s"
  by (simp add: step_def)

lemma run_snoc: "run rt argv (evs @ [ev]) = step rt argv ev (run rt argv evs)"
  by (simp add: run_def)

lemma run_Nil: "run rt argv [] = main argv"
  by (simp add: run_def)

lemma step_lifecycle:
  assumes "pending s = int (length (inflight s))"
    and "(exitCode s = Some 0) = (stdinClosed s \<and> pending s = 0)"
  shows "pending (step rt argv ev s) = int (length (inflight (step rt argv ev s))) \<and>
         ((exitCode (step rt argv ev s) = Some 0) =
            (stdinClosed (step rt argv ev s) \<and> pending (step rt argv ev s) = 0))"
proof (cases "exitCode s = None")
  case False
  then show ?thesis using assms by (simp add: step_exited)
next
  case running: True
  show ?thesis
  proof (cases ev)
    case (Line raw)
    then show ?thesis
      using assms running
      by (auto simp: step_def handleMessage_start_def unhandled_rejection_def process_exit_def
          split: option.split sum.split)
  next
    case (Settled i oc)
    then show ?thesis
      using assms running
      by (auto simp: step_def resume_fields)
  next
    case Close
    then show ?thesis
      using assms running
      by (auto simp: step_def maybeExit_def process_exit_def)
  next
    case Tick
    then show ?thesis
      using assms running
      by (auto simp: step_def process_exit_def)
  qed
qed

lemma run_lifecycle:
  "pending (run rt argv evs) = int (length (inflight (run rt argv evs))) \<and>
   ((exitCode (run rt argv evs) = Some 0) =
      (stdinClosed (run rt argv evs) \<and> pending (run rt argv evs) = 0))"
proof (induction evs rule: rev_induct)
  case Nil
  show ?case by (simp add: run_Nil main_fields split: option.split)
next
  case (snoc ev evs)
  then show ?case
    unfolding run_snoc by (intro step_lifecycle) simp_all
qed

text \<open>
  Every message that is suspended at \<^verbatim>\<open>await fetch\<close> passed the test of line
  45: it is not \<^verbatim>\<open>null\<close> and its \<^verbatim>\<open>method\<close> is truthy. So the continuation of
  \<open>handleMessage\<close> reads \<^verbatim>\<open>msg.id\<close> with \<open>property\<close>.
\<close>

lemma step_inflight:
  "m \<in> set (inflight (step rt argv ev s)) \<Longrightarrow>
   m \<in> set (inflight s) \<or> (m \<noteq> JNull \<and> truthy (property m (lit ''method'')))"
proof (cases ev)
  case (Line raw)
  assume "m \<in> set (inflight (step rt argv ev s))"
  with Line show ?thesis
    by (auto simp: step_def handleMessage_start_def unhandled_rejection_def process_exit_def
        get_prop_def split: if_splits option.splits)
next
  case (Settled i oc)
  assume "m \<in> set (inflight (step rt argv ev s))"
  with Settled show ?thesis
    by (auto simp: step_def resume_fields split: if_splits
        dest: in_set_takeD in_set_dropD)
next
  case Close
  assume "m \<in> set (inflight (step rt argv ev s))"
  with Close show ?thesis
    by (auto simp: step_def maybeExit_def process_exit_def split: if_splits)
next
  case Tick
  assume "m \<in> set (inflight (step rt argv ev s))"
  with Tick show ?thesis
    by (auto simp: step_def process_exit_def split: if_splits)
qed

lemma run_inflight:
  "m \<in> set (inflight (run rt argv evs)) \<Longrightarrow>
   m \<noteq> JNull \<and> truthy (property m (lit ''method''))"
proof (induction evs arbitrary: m rule: rev_induct)
  case Nil
  then show ?case by (simp add: run_Nil main_fields)
next
  case (snoc ev evs)
  from snoc.prems have "m \<in> set (inflight (step rt argv ev (run rt argv evs)))"
    by (simp add: run_snoc)
  from step_inflight [OF this] snoc.IH show ?case
    by blast
qed

text \<open>
  Claim C6. In every state the process reaches, from any arguments and after
  any sequence of events, the exit code is 0 exactly when \<open>stdinClosed\<close> holds
  and \<open>pending\<close> is 0. The test is made after each decrement (the \<^verbatim>\<open>finally\<close>
  of \<open>handleMessage\<close> exits with 0 exactly when the stream is closed and the
  decremented count is 0) and after the closure signal (the \<^verbatim>\<open>close\<close> listener
  exits with 0 exactly when nothing is pending). So the exit code is never 0
  while \<open>pending\<close> is positive, and a stream that closes before any line makes
  the started process exit with 0.
\<close>

theorem exit_zero_iff_drained:
  "((exitCode (run rt argv evs) = Some 0) =
      (stdinClosed (run rt argv evs) \<and> pending (run rt argv evs) = 0)) \<and>
   (exitCode s = None \<longrightarrow>
      (exitCode (handleMessage_resume rt msg oc s) = Some 0) = (stdinClosed s \<and> pending s - 1 = 0) \<and>
      pending (handleMessage_resume rt msg oc s) = pending s - 1) \<and>
   (exitCode s = None \<longrightarrow>
      (exitCode (step rt argv Close s) = Some 0) = (pending s = 0) \<and>
      stdinClosed (step rt argv Close s)) \<and>
   (0 < pending (run rt argv evs) \<longrightarrow> exitCode (run rt argv evs) \<noteq> Some 0) \<and>
   (url argv = Some u \<and> u \<noteq> [] \<longrightarrow> exitCode (run rt argv [Close]) = Some 0)"
proof (intro conjI impI)
  show "(exitCode (run rt argv evs) = Some 0) =
      (stdinClosed (run rt argv evs) \<and> pending (run rt argv evs) = 0)"
    using run_lifecycle [of rt argv evs] by simp
  show "exitCode (run rt argv evs) \<noteq> Some 0" if "0 < pending (run rt argv evs)"
    using run_lifecycle [of rt argv evs] that by simp
  show "(exitCode (handleMessage_resume rt msg oc s) = Some 0) = (stdinClosed s \<and> pending s - 1 = 0)"
    if "exitCode s = None"
    using that by (simp add: resume_fields)
  show "pending (handleMessage_resume rt msg oc s) = pending s - 1"
    by (simp add: resume_fields)
  show "(exitCode (step rt argv Close s) = Some 0) = (pending s = 0)" if "exitCode s = None"
    using that by (simp add: step_def maybeExit_def process_exit_def)
  show "stdinClosed (step rt argv Close s)" if "exitCode s = None"
    using that by (simp add: step_def maybeExit_def process_exit_def)
  show "exitCode (run rt argv [Close]) = Some 0" if "url argv = Some u \<and> u \<noteq> []"
    using that
    by (simp add: run_def step_def main_fields maybeExit_def process_exit_def)
qed

theorem exit_zero_iff_drained_witness:
  "url sample_argv = Some (lit ''https://my-server.com/mcp'') \<and>
   lit ''https://my-server.com/mcp'' \<noteq> [] \<and>
   exitCode (run sample_runtime sample_argv [Close]) = Some 0 \<and>
   stdinClosed (run sample_runtime sample_argv [Close]) \<and>
   pending (run sample_runtime sample_argv [Close]) = 0"
proof -
  have u: "url sample_argv = Some (lit ''https://my-server.com/mcp'')"
    by (simp add: url_def argv_at_def sample_argv_def)
  have n: "lit ''https://my-server.com/mcp'' \<noteq> []"
    by (simp add: lit_def)
  show ?thesis
    using exit_zero_iff_drained
      [where argv = sample_argv and rt = sample_runtime and evs = "[Close]"
         and u = "lit ''https://my-server.com/mcp''" and s = fresh] u n
    by blast
qed

section \<open>The credential\<close>

lemma step_requests:
  "r \<in> set (requests (step rt argv ev s)) \<Longrightarrow>
   r \<in> set (requests s) \<or>
   req_headers r =
     [(lit ''Content-Type'', lit ''application/json'')] @
     (case authHeader argv of
        None \<Rightarrow> []
      | Some h \<Rightarrow> if h = [] then [] else [(lit ''Authorization'', h)])"
  by (cases ev)
     (auto simp: step_def handleMessage_start_def unhandled_rejection_def process_exit_def
        resume_fields maybeExit_def
        split: if_splits option.splits sum.splits)

lemma run_requests:
  "r \<in> set (requests (run rt argv evs)) \<Longrightarrow>
   req_headers r =
     [(lit ''Content-Type'', lit ''application/json'')] @
     (case authHeader argv of
        None \<Rightarrow> []
      | Some h \<Rightarrow> if h = [] then [] else [(lit ''Authorization'', h)])"
proof (induction evs arbitrary: r rule: rev_induct)
  case Nil
  then show ?case by (simp add: run_Nil main_fields)
next
  case (snoc ev evs)
  from snoc.prems have "r \<in> set (requests (step rt argv ev (run rt argv evs)))"
    by (simp add: run_snoc)
  from step_requests [OF this] snoc.IH show ?case
    by blast
qed

lemma header_keys: "lit ''Authorization'' \<noteq> lit ''Content-Type''"
  by (simp add: lit_def)

text \<open>
  Claim C7, as the code has it. For a secret that is supplied and not empty,
  the header value is "Basic " followed by the base64 text of "user:" and the
  secret, and every request the process ever sends carries it as its
  \<^verbatim>\<open>Authorization\<close> header. For a secret that is absent or empty there is no
  header value, and no request carries an \<^verbatim>\<open>Authorization\<close> header.
\<close>

theorem authorization_header:
  "(password argv = Some p \<and> p \<noteq> [] \<longrightarrow>
      authHeader argv = Some (lit ''Basic '' @ base64 (utf8 (lit ''user:'' @ p))) \<and>
      (\<forall>r \<in> set (requests (run rt argv evs)).
         map_of (req_headers r) (lit ''Authorization'') =
           Some (lit ''Basic '' @ base64 (utf8 (lit ''user:'' @ p))))) \<and>
   (password argv = None \<or> password argv = Some [] \<longrightarrow>
      authHeader argv = None \<and>
      (\<forall>r \<in> set (requests (run rt argv evs)).
         map_of (req_headers r) (lit ''Authorization'') = None))"
proof (intro conjI impI ballI)
  assume a: "password argv = Some p \<and> p \<noteq> []"
  then show h: "authHeader argv = Some (lit ''Basic '' @ base64 (utf8 (lit ''user:'' @ p)))"
    by (simp add: authHeader_def)
  fix r assume "r \<in> set (requests (run rt argv evs))"
  from run_requests [OF this] h header_keys
  show "map_of (req_headers r) (lit ''Authorization'') =
           Some (lit ''Basic '' @ base64 (utf8 (lit ''user:'' @ p)))"
    by (simp add: lit_def)
next
  assume a: "password argv = None \<or> password argv = Some []"
  then show h: "authHeader argv = None"
    by (auto simp: authHeader_def)
  fix r assume "r \<in> set (requests (run rt argv evs))"
  from run_requests [OF this] h header_keys
  show "map_of (req_headers r) (lit ''Authorization'') = None"
    by simp
qed

theorem authorization_header_witness:
  \<open>password sample_argv = Some (lit ''my-password'') \<and>
   lit ''my-password'' \<noteq> [] \<and>
   authHeader sample_argv = Some (lit ''Basic dXNlcjpteS1wYXNzd29yZA=='') \<and>
   requests (run sample_runtime sample_argv
     [Line (lit ''{"jsonrpc":"2.0","id":1,"method":"ping"}'')]) \<noteq> [] \<and>
   map_of (req_headers (hd (requests (run sample_runtime sample_argv
     [Line (lit ''{"jsonrpc":"2.0","id":1,"method":"ping"}'')])))) (lit ''Authorization'') =
     Some (lit ''Basic dXNlcjpteS1wYXNzd29yZA=='')\<close>
proof -
  have p: "password sample_argv = Some (lit ''my-password'')"
    by (simp add: password_def argv_at_def sample_argv_def)
  have n: "lit ''my-password'' \<noteq> []"
    by (simp add: lit_def)
  have b: "lit ''Basic '' @ base64 (utf8 (lit ''user:'' @ lit ''my-password'')) =
     lit ''Basic dXNlcjpteS1wYXNzd29yZA==''"
    by (simp add: lit_def b64_def b64chars_def)
  have q: \<open>JSON_parse sample_runtime (lit ''{"jsonrpc":"2.0","id":1,"method":"ping"}'') =
     Some (JObj [jsonrpc2, (lit ''id'', JNum (Finite 1)), (lit ''method'', JStr (lit ''ping''))])\<close>
    by (simp add: sample_runtime_def sample_texts_def lit_def)
  have m: "get_prop (JObj [jsonrpc2, (lit ''id'', JNum (Finite 1)), (lit ''method'', JStr (lit ''ping''))])
      (lit ''method'') = Inr (Some (JStr (lit ''ping'')))"
    by (simp add: get_prop_def lit_def)
  have t: "truthy (Some (JStr (lit ''ping'')))"
    by (simp add: lit_def)
  have r: \<open>requests (run sample_runtime sample_argv
     [Line (lit ''{"jsonrpc":"2.0","id":1,"method":"ping"}'')]) \<noteq> []\<close>
    using q m t
    by (simp add: run_def step_def main_sample handleMessage_start_def write_stderr_def fresh_def)
  then have h: \<open>hd (requests (run sample_runtime sample_argv
     [Line (lit ''{"jsonrpc":"2.0","id":1,"method":"ping"}'')])) \<in>
     set (requests (run sample_runtime sample_argv
     [Line (lit ''{"jsonrpc":"2.0","id":1,"method":"ping"}'')]))\<close>
    by simp
  show ?thesis
    using authorization_header
      [where argv = sample_argv and p = "lit ''my-password''" and rt = sample_runtime
         and evs = \<open>[Line (lit ''{"jsonrpc":"2.0","id":1,"method":"ping"}'')]\<close>] p n r h
    unfolding b by blast
qed

text \<open>
  Claim C7 as stated gives a header to every supplied secret, the empty one
  included. With the empty string as the fourth argument (what the handshake
  test passes when it has no password) the secret is supplied and there is no
  header value.
\<close>

theorem empty_secret_no_header:
  "password [lit ''node'', lit ''index.js'', lit ''https://my-server.com/mcp'', []] = Some [] \<and>
   authHeader [lit ''node'', lit ''index.js'', lit ''https://my-server.com/mcp'', []] = None"
  by (simp add: authHeader_def password_def argv_at_def)

section \<open>Lines that are not messages\<close>

text \<open>
  A line that \<^verbatim>\<open>JSON.parse\<close> rejects, and a line whose value is not \<^verbatim>\<open>null\<close>
  and has no truthy \<^verbatim>\<open>method\<close> (every array, string, number and boolean
  among them), leave the whole state as it was: nothing is written, nothing
  is sent, \<open>pending\<close> is unchanged and the process goes on. The value \<^verbatim>\<open>null\<close>
  is not among them: reading \<^verbatim>\<open>null.method\<close> throws.
\<close>

lemma unparsable_line_discarded:
  "JSON_parse rt raw = None \<Longrightarrow> handleMessage_start rt argv raw s = s"
  by (simp add: handleMessage_start_def)

lemma methodless_value_discarded:
  "JSON_parse rt raw = Some v \<Longrightarrow> v \<noteq> JNull \<Longrightarrow> \<not> truthy (property v (lit ''method'')) \<Longrightarrow>
   handleMessage_start rt argv raw s = s"
  by (simp add: handleMessage_start_def get_prop_def)

lemma non_object_has_no_method:
  "\<forall>kvs. v \<noteq> JObj kvs \<Longrightarrow> property v k = None"
  by (cases v) auto

lemma null_value_rejected:
  "JSON_parse rt raw = Some JNull \<Longrightarrow>
   handleMessage_start rt argv raw s = unhandled_rejection TypeError s"
  by (simp add: handleMessage_start_def get_prop_def)

text \<open>
  Claim C8 asks that the line \<^verbatim>\<open>null\<close> be dropped like the others. It parses,
  the read of \<^verbatim>\<open>msg.method\<close> throws a TypeError outside every \<^verbatim>\<open>try\<close>, the
  promise of \<open>handleMessage\<close> is rejected with nothing to handle it, and the
  process, which was running, ends with exit code 1 when the runtime comes to
  the rejection.
\<close>

theorem null_line_not_discarded:
  "JSON_parse sample_runtime (lit ''null'') = Some JNull \<and>
   get_prop JNull (lit ''method'') = Inl TypeError \<and>
   exitCode (main sample_argv) = None \<and>
   unhandled (handleMessage_start sample_runtime sample_argv (lit ''null'') (main sample_argv)) \<and>
   exitCode (step sample_runtime sample_argv Tick
     (handleMessage_start sample_runtime sample_argv (lit ''null'') (main sample_argv))) = Some 1"
proof -
  have p: "JSON_parse sample_runtime (lit ''null'') = Some JNull"
    by (simp add: sample_runtime_def sample_texts_def lit_def)
  show ?thesis
    using p
    by (simp add: null_value_rejected get_prop_def unhandled_rejection_def process_exit_def
        step_def main_sample write_stderr_def fresh_def)
qed

section \<open>Startup without an endpoint\<close>

text \<open>
  When the endpoint argument is absent (or empty) the script writes the usage
  line and exits with code 1 before anything else: whatever events follow, the
  state stays the one the startup left, with nothing sent and nothing written
  to standard output.
\<close>

lemma missing_endpoint_exits:
  "url argv = None \<or> url argv = Some [] \<Longrightarrow>
   run rt argv evs = main argv \<and> exitCode (main argv) = Some 1 \<and>
   requests (main argv) = [] \<and> stdout (main argv) = [] \<and> pending (main argv) = 0 \<and>
   stderr (main argv) = [lit ''Usage: mcp-bridge <url> <password>'' @ newline]"
proof -
  assume a: "url argv = None \<or> url argv = Some []"
  then have e: "exitCode (main argv) = Some 1"
    by (auto simp: main_fields)
  have "run rt argv evs = main argv"
    by (induction evs rule: rev_induct) (simp_all add: run_Nil run_snoc step_exited e)
  moreover from a have "stderr (main argv) = [lit ''Usage: mcp-bridge <url> <password>'' @ newline]"
    by (auto simp: main_def process_exit_def write_stderr_def fresh_def)
  ultimately show ?thesis
    using e by (simp add: main_fields)
qed

text \<open>
  Claim C9 adds that this startup error and the drain rule are the only ways
  the process ends. With the endpoint given, the process starts and runs; the
  line \<^verbatim>\<open>null\<close> then ends it with code 1 while standard input is still open
  and nothing has been sent.
\<close>

theorem null_line_ends_process:
  "url sample_argv = Some (lit ''https://my-server.com/mcp'') \<and>
   exitCode (run sample_runtime sample_argv []) = None \<and>
   exitCode (run sample_runtime sample_argv [Line (lit ''null''), Tick]) = Some 1 \<and>
   \<not> stdinClosed (run sample_runtime sample_argv [Line (lit ''null''), Tick]) \<and>
   requests (run sample_runtime sample_argv [Line (lit ''null''), Tick]) = []"
proof -
  have p: "JSON_parse sample_runtime (lit ''null'') = Some JNull"
    by (simp add: sample_runtime_def sample_texts_def lit_def)
  have u: "url sample_argv = Some (lit ''https://my-server.com/mcp'')"
    by (simp add: url_def argv_at_def sample_argv_def)
  show ?thesis
    using p u
    by (simp add: run_def step_def null_value_rejected unhandled_rejection_def process_exit_def
        main_sample write_stderr_def fresh_def)
qed

end
